theory Spec2Isabelle
  imports Complex_Main
begin

section \<open>Text primitives of the Python runtime used by visual\_agent.py\<close>

text \<open>
  Python strings are modelled as Isabelle strings (lists of 8-bit characters). The arrow
  character U+2192 is its three UTF-8 bytes. Character classes, case folding and
  \<open>str.strip\<close> follow Python on the ASCII range.
\<close>

definition is_space :: "char \<Rightarrow> bool" where
  "is_space c = (c \<in> set [CHR '' '', CHR 0x09, CHR 0x0A, CHR 0x0B, CHR 0x0C, CHR 0x0D,
                            CHR 0x1C, CHR 0x1D, CHR 0x1E, CHR 0x1F])"

definition is_digit :: "char \<Rightarrow> bool" where
  "is_digit c = (c \<in> set ''0123456789'')"

definition is_upper :: "char \<Rightarrow> bool" where
  "is_upper c = (c \<in> set ''ABCDEFGHIJKLMNOPQRSTUVWXYZ'')"

definition is_lower :: "char \<Rightarrow> bool" where
  "is_lower c = (c \<in> set ''abcdefghijklmnopqrstuvwxyz'')"

definition is_word :: "char \<Rightarrow> bool" where
  "is_word c = (is_lower c \<or> is_upper c \<or> is_digit c \<or> c = CHR ''_'')"

definition lower_char :: "char \<Rightarrow> char" where
  "lower_char c =
     (case map_of (zip ''ABCDEFGHIJKLMNOPQRSTUVWXYZ'' ''abcdefghijklmnopqrstuvwxyz'') c of
        Some d \<Rightarrow> d | None \<Rightarrow> c)"

text \<open>\<open>str.lower()\<close>\<close>
definition lower :: "string \<Rightarrow> string" where
  "lower s = map lower_char s"

text \<open>\<open>str.strip()\<close>\<close>
definition strip :: "string \<Rightarrow> string" where
  "strip s = rev (dropWhile is_space (rev (dropWhile is_space s)))"

text \<open>\<open>str.split(sep)\<close> for a one-character separator; \<open>split_char_aux\<close> carries the
  current piece reversed.\<close>
fun split_char_aux :: "char \<Rightarrow> string \<Rightarrow> string \<Rightarrow> string list" where
  "split_char_aux sep acc [] = [rev acc]"
| "split_char_aux sep acc (c # cs) =
     (if c = sep then rev acc # split_char_aux sep [] cs
      else split_char_aux sep (c # acc) cs)"

definition split_char :: "char \<Rightarrow> string \<Rightarrow> string list" where
  "split_char sep s = split_char_aux sep [] s"

text \<open>\<open>sub in s\<close>\<close>
fun contains :: "string \<Rightarrow> string \<Rightarrow> bool" where
  "contains sub [] = (sub = [])"
| "contains sub (c # cs) = (take (length sub) (c # cs) = sub \<or> contains sub cs)"

text \<open>\<open>s.endswith(suffix)\<close>\<close>
definition endswith :: "string \<Rightarrow> string \<Rightarrow> bool" where
  "endswith s suffix = (length suffix \<le> length s \<and> drop (length s - length suffix) s = suffix)"

text \<open>\<open>str(n)\<close> for a non-negative integer, as used by \<open>f"node_{n}"\<close>.\<close>
definition digit_char :: "nat \<Rightarrow> char" where
  "digit_char d = ''0123456789'' ! d"

function str_nat :: "nat \<Rightarrow> string" where
  "str_nat n = (if n < 10 then [digit_char n] else str_nat (n div 10) @ [digit_char (n mod 10)])"
  by pat_completeness auto
termination
  by (relation "measure id") auto

declare str_nat.simps [simp del]

subsection \<open>Regular expressions: the backtracking matcher of \<open>re\<close>\<close>

text \<open>
  A pattern is a value of \<open>regex\<close>. The matcher returns every way the pattern can match at
  the current position, in the order in which Python's backtracking engine tries them
  (alternatives left to right, greedy repetitions longest first, lazy ones shortest first);
  the head of the list is the match Python reports. A match state is the previously
  consumed character (for \<open>\b\<close> and \<open>^\<close>), the remaining input and the captured groups.
\<close>

datatype citem = CI char | CRange char char | CSpace | CDigit | CWord

datatype regex =
    Eps
  | Lit char
  | Dot
  | Cls "citem list"
  | NCls "citem list"
  | Bol
  | Eol
  | WordB
  | Seq regex regex
  | Alt regex regex
  | Star regex
  | StarLazy regex
  | Grp nat regex
  | Look regex

type_synonym caps = "(nat \<times> string) list"
type_synonym mres = "char option \<times> string \<times> caps"

fun citem_match :: "citem \<Rightarrow> char \<Rightarrow> bool" where
  "citem_match (CI a) c = (c = a)"
| "citem_match (CRange a b) c = (of_char a \<le> (of_char c :: nat) \<and> (of_char c :: nat) \<le> of_char b)"
| "citem_match CSpace c = is_space c"
| "citem_match CDigit c = is_digit c"
| "citem_match CWord c = is_word c"

definition lit_match :: "bool \<Rightarrow> char \<Rightarrow> char \<Rightarrow> bool" where
  "lit_match ic a c = (if ic then lower_char a = lower_char c else a = c)"

definition word_opt :: "char option \<Rightarrow> bool" where
  "word_opt p = (case p of None \<Rightarrow> False | Some c \<Rightarrow> is_word c)"

definition next_char :: "string \<Rightarrow> char option" where
  "next_char s = (case s of [] \<Rightarrow> None | c # _ \<Rightarrow> Some c)"

function rmatch :: "bool \<Rightarrow> regex \<Rightarrow> char option \<Rightarrow> string \<Rightarrow> caps \<Rightarrow> mres list" where
  "rmatch ic Eps p s g = [(p, s, g)]"
| "rmatch ic (Lit a) p s g =
     (case s of [] \<Rightarrow> [] | c # cs \<Rightarrow> if lit_match ic a c then [(Some c, cs, g)] else [])"
| "rmatch ic Dot p s g =
     (case s of [] \<Rightarrow> [] | c # cs \<Rightarrow> if c \<noteq> CHR 0x0A then [(Some c, cs, g)] else [])"
| "rmatch ic (Cls items) p s g =
     (case s of [] \<Rightarrow> []
      | c # cs \<Rightarrow> if list_ex (\<lambda>it. citem_match it c) items then [(Some c, cs, g)] else [])"
| "rmatch ic (NCls items) p s g =
     (case s of [] \<Rightarrow> []
      | c # cs \<Rightarrow> if list_ex (\<lambda>it. citem_match it c) items then [] else [(Some c, cs, g)])"
| "rmatch ic Bol p s g = (if p = None then [(p, s, g)] else [])"
| "rmatch ic Eol p s g = (if s = [] \<or> s = [CHR 0x0A] then [(p, s, g)] else [])"
| "rmatch ic WordB p s g =
     (if word_opt p \<noteq> word_opt (next_char s) then [(p, s, g)] else [])"
| "rmatch ic (Seq r1 r2) p s g =
     concat (map (\<lambda>(p', s', g'). rmatch ic r2 p' s' g') (rmatch ic r1 p s g))"
| "rmatch ic (Alt r1 r2) p s g = rmatch ic r1 p s g @ rmatch ic r2 p s g"
| "rmatch ic (Star r) p s g =
     concat (map (\<lambda>(p', s', g'). if length s' < length s then rmatch ic (Star r) p' s' g' else [])
                 (rmatch ic r p s g))
     @ [(p, s, g)]"
| "rmatch ic (StarLazy r) p s g =
     (p, s, g) #
     concat (map (\<lambda>(p', s', g'). if length s' < length s then rmatch ic (StarLazy r) p' s' g' else [])
                 (rmatch ic r p s g))"
| "rmatch ic (Grp n r) p s g =
     map (\<lambda>(p', s', g'). (p', s', (n, take (length s - length s') s) # g')) (rmatch ic r p s g)"
| "rmatch ic (Look r) p s g = (if rmatch ic r p s g = [] then [] else [(p, s, g)])"
  by pat_completeness auto
termination
  by (relation "measures [\<lambda>(ic, r, p, s, g). size r, \<lambda>(ic, r, p, s, g). length s]") auto

text \<open>Derived pattern forms: \<open>r+\<close>, \<open>r+?\<close>, \<open>r?\<close>, a literal word, a sequence, an
  alternation, and the classes \<open>\s\<close> and \<open>\d\<close>.\<close>

definition Plus :: "regex \<Rightarrow> regex" where
  "Plus r = Seq r (Star r)"

definition PlusLazy :: "regex \<Rightarrow> regex" where
  "PlusLazy r = Seq r (StarLazy r)"

definition Opt :: "regex \<Rightarrow> regex" where
  "Opt r = Alt r Eps"

definition seqs :: "regex list \<Rightarrow> regex" where
  "seqs rs = foldr Seq rs Eps"

definition lits :: "string \<Rightarrow> regex" where
  "lits w = seqs (map Lit w)"

fun alts :: "regex list \<Rightarrow> regex" where
  "alts [] = NCls []"
| "alts [r] = r"
| "alts (r # rs) = Alt r (alts rs)"

definition words :: "string list \<Rightarrow> regex" where
  "words ws = alts (map lits ws)"

definition sp :: regex where
  "sp = Cls [CSpace]"

definition dg :: regex where
  "dg = Cls [CDigit]"

text \<open>A match object: the text before the match, the matched text, the text after it, the
  last character of the match (or before it, if the match is empty) and the groups.\<close>

record rmatch_obj =
  m_before :: string
  m_text :: string
  m_after :: string
  m_groups :: caps

text \<open>\<open>m.group(n)\<close>: \<open>None\<close> when the group did not take part in the match.\<close>
definition group :: "rmatch_obj \<Rightarrow> nat \<Rightarrow> string option" where
  "group m n = map_of (m_groups m) n"

text \<open>\<open>re.match(pattern, s)\<close>\<close>
definition re_match :: "bool \<Rightarrow> regex \<Rightarrow> string \<Rightarrow> rmatch_obj option" where
  "re_match ic r s =
     (case rmatch ic r None s [] of
        [] \<Rightarrow> None
      | (p', s', g') # _ \<Rightarrow>
          Some \<lparr>m_before = [], m_text = take (length s - length s') s, m_after = s', m_groups = g'\<rparr>)"

text \<open>\<open>re.search(pattern, s)\<close>: the leftmost position with a match. \<open>search_from\<close> carries the
  text already passed, reversed.\<close>
fun search_from :: "bool \<Rightarrow> regex \<Rightarrow> string \<Rightarrow> char option \<Rightarrow> string \<Rightarrow> rmatch_obj option" where
  "search_from ic r acc p s =
     (case rmatch ic r p s [] of
        (p', s', g') # _ \<Rightarrow>
          Some \<lparr>m_before = rev acc, m_text = take (length s - length s') s, m_after = s',
                m_groups = g'\<rparr>
      | [] \<Rightarrow> (case s of [] \<Rightarrow> None | c # cs \<Rightarrow> search_from ic r (c # acc) (Some c) cs))"

definition re_search :: "bool \<Rightarrow> regex \<Rightarrow> string \<Rightarrow> rmatch_obj option" where
  "re_search ic r s = search_from ic r [] None s"

text \<open>The non-overlapping matches of a pattern, left to right, as \<open>re.findall\<close>, \<open>re.split\<close>
  and \<open>re.sub\<close> visit them. Every pattern this program passes to those three functions
  consumes at least one character per match; a position where the pattern matches only
  the empty string is passed over.\<close>

function scan :: "bool \<Rightarrow> regex \<Rightarrow> string \<Rightarrow> char option \<Rightarrow> string \<Rightarrow> (string \<times> string) list \<times> string" where
  "scan ic r acc p s =
     (case (case rmatch ic r p s [] of
              (p', s', g') # _ \<Rightarrow> if length s' < length s then Some (p', s') else None
            | [] \<Rightarrow> None) of
        Some (p', s') \<Rightarrow>
          (let (ms, tl) = scan ic r [] p' s' in ((rev acc, take (length s - length s') s) # ms, tl))
      | None \<Rightarrow> (case s of [] \<Rightarrow> ([], rev acc) | c # cs \<Rightarrow> scan ic r (c # acc) (Some c) cs))"
  by pat_completeness auto
termination
  by (relation "measure (\<lambda>(ic, r, acc, p, s). length s)") (auto split: list.splits if_splits)

declare scan.simps [simp del] search_from.simps [simp del]

text \<open>\<open>re.findall(pattern, s)\<close> for a pattern without groups\<close>
definition re_findall :: "bool \<Rightarrow> regex \<Rightarrow> string \<Rightarrow> string list" where
  "re_findall ic r s = map snd (fst (scan ic r [] None s))"

text \<open>\<open>re.split(pattern, s)\<close> for a pattern without groups\<close>
definition re_split :: "bool \<Rightarrow> regex \<Rightarrow> string \<Rightarrow> string list" where
  "re_split ic r s = (let (ms, tl) = scan ic r [] None s in map fst ms @ [tl])"

text \<open>\<open>re.sub(pattern, repl, s)\<close> for a replacement without group references\<close>
definition re_sub :: "bool \<Rightarrow> regex \<Rightarrow> string \<Rightarrow> string \<Rightarrow> string" where
  "re_sub ic r repl s = (let (ms, tl) = scan ic r [] None s in concat (map (\<lambda>(b, m). b @ repl) ms) @ tl)"


section \<open>The classifier: \<open>detect_visual_type\<close>\<close>

datatype VisualType = FLOWCHART | DIAGRAM | CHART

datatype py_error = ValueError | ZeroDivisionError

text \<open>\<open>VisualType(value)\<close>: the member with that value; Python's \<open>Enum\<close> raises
  \<open>ValueError\<close> for a value that no member has.\<close>
definition VisualType_of :: "string \<Rightarrow> py_error + VisualType" where
  "VisualType_of v =
     (if v = ''flowchart'' then Inr FLOWCHART
      else if v = ''diagram'' then Inr DIAGRAM
      else if v = ''chart'' then Inr CHART
      else Inl ValueError)"

text \<open>\<open>[:=]\s*\d+\<close>\<close>
definition key_value_re :: regex where
  "key_value_re = seqs [Cls [CI CHR '':'', CI CHR ''=''], Star sp, Plus dg]"

text \<open>\<open>\b(q1|q2|q3|q4|jan|feb|mar|apr|may|jun|jul|aug|sep|oct|nov|dec)\b\<close>\<close>
definition quarter_month_re :: regex where
  "quarter_month_re =
     seqs [WordB,
           Grp 1 (words [''q1'', ''q2'', ''q3'', ''q4'', ''jan'', ''feb'', ''mar'', ''apr'', ''may'',
                         ''jun'', ''jul'', ''aug'', ''sep'', ''oct'', ''nov'', ''dec'']),
           WordB]"

text \<open>\<open>\b(start|begin|end|finish|step|process)\b\<close>\<close>
definition flow_keywords_re :: regex where
  "flow_keywords_re =
     seqs [WordB, Grp 1 (words [''start'', ''begin'', ''end'', ''finish'', ''step'', ''process'']), WordB]"

text \<open>\<open>\b(yes|no)\s*:\<close>\<close>
definition yes_no_re :: regex where
  "yes_no_re = seqs [WordB, Grp 1 (words [''yes'', ''no'']), Star sp, Lit CHR '':'']"

text \<open>\<open>\bif\b[\s\S]*\bthen\b\<close>\<close>
definition if_then_anywhere_re :: regex where
  "if_then_anywhere_re =
     seqs [WordB, lits ''if'', WordB, Star (Alt sp (NCls [CSpace])), WordB, lits ''then'', WordB]"

definition has_key_value :: "string \<Rightarrow> bool" where
  "has_key_value s = (re_search False key_value_re s \<noteq> None)"

definition has_quarter_or_month :: "string \<Rightarrow> bool" where
  "has_quarter_or_month s = (re_search True quarter_month_re s \<noteq> None)"

definition has_flow_keywords :: "string \<Rightarrow> bool" where
  "has_flow_keywords s = (re_search False flow_keywords_re (lower s) \<noteq> None)"

definition has_decision :: "string \<Rightarrow> bool" where
  "has_decision s = (CHR ''?'' \<in> set s)"

definition has_yes_no :: "string \<Rightarrow> bool" where
  "has_yes_no s = (re_search True yes_no_re s \<noteq> None)"

definition has_if_then :: "string \<Rightarrow> bool" where
  "has_if_then s = (re_search True if_then_anywhere_re s \<noteq> None)"

definition detect_visual_type :: "string \<Rightarrow> string \<Rightarrow> py_error + VisualType" where
  "detect_visual_type txt preferred_type =
     (if preferred_type \<noteq> ''auto'' then VisualType_of preferred_type
      else if (has_key_value txt \<and> has_quarter_or_month txt)
              \<or> 3 \<le> length (re_findall False key_value_re txt) then Inr CHART
      else if has_flow_keywords txt \<or> has_decision txt \<or> has_yes_no txt \<or> has_if_then txt
           then Inr FLOWCHART
      else Inr DIAGRAM)"

section \<open>The chart parser and the chart renderer\<close>

text \<open>An entry of the chart data, \<open>{"label": ..., "value": ...}\<close>. Python's floats are
  modelled by the rationals they are read from; rounding is not modelled.\<close>
record ChartItem =
  c_label :: string
  c_value :: rat

text \<open>\<open>([^:=]+)\s*[:=]\s*(\d+(?:\.\d+)?)\<close>\<close>
definition chart_line_re :: regex where
  "chart_line_re =
     seqs [Grp 1 (Plus (NCls [CI CHR '':'', CI CHR ''=''])), Star sp, Cls [CI CHR '':'', CI CHR ''=''],
           Star sp, Grp 2 (Seq (Plus dg) (Opt (Seq (Lit CHR ''.'') (Plus dg))))]"

definition digit_val :: "char \<Rightarrow> nat" where
  "digit_val c = (case map_of (zip ''0123456789'' [0, 1, 2, 3, 4, 5, 6, 7, 8, 9]) c of
                    Some d \<Rightarrow> d | None \<Rightarrow> 0)"

definition nat_of_digits :: "string \<Rightarrow> nat" where
  "nat_of_digits ds = foldl (\<lambda>n c. 10 * n + digit_val c) 0 ds"

text \<open>\<open>float(s)\<close> on the decimal numerals that group 2 of \<open>chart_line_re\<close> captures.\<close>
definition py_float :: "string \<Rightarrow> rat" where
  "py_float s =
     (let ip = takeWhile is_digit s; fp = drop (length ip + 1) s
      in of_nat (nat_of_digits ip) + of_nat (nat_of_digits fp) / 10 ^ length fp)"

text \<open>Group \<open>n\<close> of a match as a string (the empty string if it took no part).\<close>
definition grp :: "rmatch_obj \<Rightarrow> nat \<Rightarrow> string" where
  "grp m n = (case group m n of Some s \<Rightarrow> s | None \<Rightarrow> [])"

text \<open>\<open>[line.strip() for line in text.split('\n') if line.strip()]\<close>\<close>
definition nonblank_lines :: "string \<Rightarrow> string list" where
  "nonblank_lines txt = filter (\<lambda>l. l \<noteq> []) (map strip (split_char (CHR 0x0A) txt))"

definition parse_chart :: "string \<Rightarrow> ChartItem list" where
  "parse_chart txt =
     concat (map (\<lambda>line. case re_match False chart_line_re line of
                            Some m \<Rightarrow> [\<lparr>c_label = strip (grp m 1), c_value = py_float (grp m 2)\<rparr>]
                          | None \<Rightarrow> [])
                 (nonblank_lines txt))"

text \<open>A bar of the rendered chart: the geometry of its \<open>rect\<close> element and the two
  texts drawn with it. The serialisation of these numbers into the markup string is not
  modelled.\<close>
record Bar =
  bar_x :: rat
  bar_y :: rat
  bar_width :: rat
  bar_height :: rat
  bar_label :: string
  bar_value :: rat

datatype chart_svg = EmptyMarkup | ChartSvg "Bar list"

text \<open>Python's \<open>/\<close> on numbers: a zero divisor raises \<open>ZeroDivisionError\<close>.\<close>
definition py_div :: "rat \<Rightarrow> rat \<Rightarrow> py_error + rat" where
  "py_div a b = (if b = 0 then Inl ZeroDivisionError else Inr (a / b))"

text \<open>\<open>max(item["value"] for item in data)\<close> on a non-empty list\<close>
definition max_value_of :: "ChartItem list \<Rightarrow> rat" where
  "max_value_of d = foldl max (c_value (hd d)) (map c_value (tl d))"

text \<open>A \<open>for\<close> loop whose body can raise: the first error ends it.\<close>
fun for_each :: "('a \<Rightarrow> py_error + 'b) \<Rightarrow> 'a list \<Rightarrow> py_error + 'b list" where
  "for_each f [] = Inr []"
| "for_each f (x # xs) =
     (case f x of
        Inl e \<Rightarrow> Inl e
      | Inr y \<Rightarrow> (case for_each f xs of Inl e \<Rightarrow> Inl e | Inr ys \<Rightarrow> Inr (y # ys)))"

text \<open>The body of the loop that draws the bars, for the item at index \<open>i\<close>.\<close>
definition draw_bar :: "rat \<Rightarrow> rat \<Rightarrow> rat \<Rightarrow> rat \<Rightarrow> rat \<Rightarrow> rat \<Rightarrow> nat \<times> ChartItem \<Rightarrow> py_error + Bar" where
  "draw_bar height padding chart_height max_value bw bs =
     (\<lambda>(i, item).
        case py_div (c_value item) max_value of
          Inl e \<Rightarrow> Inl e
        | Inr q \<Rightarrow>
            (let bh = q * chart_height;
                 x = padding + of_nat i * (bw + bs) + bs / 2;
                 y = height - padding - bh
             in Inr \<lparr>bar_x = x, bar_y = y, bar_width = bw, bar_height = bh,
                      bar_label = c_label item, bar_value = c_value item\<rparr>))"

definition generate_chart_svg :: "ChartItem list \<Rightarrow> py_error + chart_svg" where
  "generate_chart_svg d =
     (if d = [] then Inr EmptyMarkup
      else
        (let width = 1000; height = 700; padding = 100;
             chart_width = width - 2 * padding;
             chart_height = height - 2 * padding;
             max_value = max_value_of d;
             bw = chart_width / of_nat (length d) * (7 / 10);
             bs = chart_width / of_nat (length d) * (3 / 10)
         in case for_each (draw_bar height padding chart_height max_value bw bs)
                          (zip [0..<length d] d) of
              Inl e \<Rightarrow> Inl e
            | Inr bars \<Rightarrow> Inr (ChartSvg bars)))"

section \<open>The diagram parser: \<open>parse_diagram\<close>\<close>

text \<open>The arrow character U+2192 in UTF-8.\<close>
definition arrow_char :: string where
  "arrow_char = [CHR 0xE2, CHR 0x86, CHR 0x92]"

text \<open>\<open>\s*(U+2192)\s*|\s*->\s*\<close>\<close>
definition arrow_re :: regex where
  "arrow_re = Alt (seqs [Star sp, lits arrow_char, Star sp]) (seqs [Star sp, lits ''->'', Star sp])"

text \<open>\<open>[(U+2192)-]>\<close>\<close>
definition arrow_head_re :: regex where
  "arrow_head_re = Seq (Alt (lits arrow_char) (Lit CHR ''-'')) (Lit CHR ''>'')"

text \<open>\<open>[\n\.;]+|,\s*(?=[A-Z0-9])\<close>\<close>
definition phrase_sep_re :: regex where
  "phrase_sep_re =
     Alt (Plus (Cls [CI (CHR 0x0A), CI CHR ''.'', CI CHR '';'']))
         (seqs [Lit CHR '','', Star sp, Look (Cls [CRange CHR ''A'' CHR ''Z'', CRange CHR ''0'' CHR ''9''])])"

text \<open>\<open>^(.+?)\s+ ... \s+(.+)$\<close> around the words of a relation\<close>
definition verb_re :: "regex list \<Rightarrow> regex" where
  "verb_re middle =
     seqs ([Bol, Grp 1 (PlusLazy Dot), Plus sp] @ middle @ [Plus sp, Grp 2 (Plus Dot), Eol])"

definition verb_patterns :: "regex list" where
  "verb_patterns =
     [verb_re [lits ''connects'', Plus sp, lits ''to''],
      verb_re [lits ''sends'', Opt (Seq (Plus sp) (lits ''request'')), Plus sp, lits ''to''],
      verb_re [lits ''routes'', Plus sp, lits ''to''],
      verb_re [lits ''links'', Plus sp, lits ''to''],
      verb_re [lits ''queries''],
      verb_re [lits ''returns'', Opt (Seq (Plus sp) (words [''data'', ''response''])), Plus sp,
               lits ''to''],
      verb_re [lits ''sends'', Plus sp, lits ''data'', Plus sp, lits ''to'']]"

text \<open>\<open>^(the|a|an)\s+\<close>\<close>
definition article_re :: regex where
  "article_re = seqs [Bol, Grp 1 (words [''the'', ''a'', ''an'']), Plus sp]"

definition canon :: "string \<Rightarrow> string" where
  "canon s = re_sub False (Plus sp) '' '' (strip s)"

definition clean_entity :: "string \<Rightarrow> string" where
  "clean_entity s = re_sub True article_re [] (canon s)"

text \<open>A node \<open>{"id": ..., "label": ...}\<close> and an edge \<open>{"from": ..., "to": ...}\<close> of the
  diagram.\<close>
record DNode =
  d_id :: string
  d_label :: string

record DEdge =
  d_from :: string
  d_to :: string

text \<open>The local variables of \<open>parse_diagram\<close> that its closures update.\<close>
record dg_state =
  d_nodes :: "DNode list"
  d_edges :: "DEdge list"
  node_set :: "string set"
  edge_set :: "string set"

definition d_add_node :: "string \<Rightarrow> dg_state \<Rightarrow> string option \<times> dg_state" where
  "d_add_node lbl st =
     (let key = canon lbl
      in if key = [] then (None, st)
         else if key \<notin> node_set st then
           (let nid = ''node_'' @ str_nat (length (d_nodes st))
            in (Some key, st\<lparr>d_nodes := d_nodes st @ [\<lparr>d_id = nid, d_label = key\<rparr>],
                               node_set := insert key (node_set st)\<rparr>))
         else (Some key, st))"

definition d_add_edge :: "string \<Rightarrow> string \<Rightarrow> dg_state \<Rightarrow> dg_state" where
  "d_add_edge from_label to_label st =
     (let key = from_label @ '' -> '' @ to_label
      in if key \<notin> edge_set st then
           st\<lparr>d_edges := d_edges st @ [\<lparr>d_from = from_label, d_to = to_label\<rparr>],
              edge_set := insert key (edge_set st)\<rparr>
         else st)"

text \<open>Python's truth value of an \<open>Optional[str]\<close>.\<close>
definition truthy :: "string option \<Rightarrow> bool" where
  "truthy v = (case v of None \<Rightarrow> False | Some s \<Rightarrow> s \<noteq> [])"

text \<open>Python's truth value of a match result.\<close>
definition found :: "rmatch_obj option \<Rightarrow> bool" where
  "found v = (case v of None \<Rightarrow> False | Some m \<Rightarrow> True)"

text \<open>Both passes end the same way: add the two nodes, then the edge if both labels are
  truthy.\<close>
definition connect :: "string \<Rightarrow> string \<Rightarrow> dg_state \<Rightarrow> dg_state" where
  "connect a b st =
     (let (from_label, st1) = d_add_node a st;
          (to_label, st2) = d_add_node b st1
      in if truthy from_label \<and> truthy to_label
         then d_add_edge (case from_label of Some k \<Rightarrow> k | None \<Rightarrow> [])
                         (case to_label of Some k \<Rightarrow> k | None \<Rightarrow> []) st2
         else st2)"

definition has_arrow_token :: "string \<Rightarrow> bool" where
  "has_arrow_token line =
     (found (re_search False arrow_head_re line) \<or> contains arrow_char line \<or> contains ''->'' line)"

text \<open>The body of the loop over the lines (the arrow pass).\<close>
definition arrow_line :: "dg_state \<Rightarrow> string \<Rightarrow> dg_state" where
  "arrow_line st line =
     (if has_arrow_token line then
        (let parts = re_split False arrow_re line
         in foldl (\<lambda>s i. connect (parts ! i) (parts ! (i + 1)) s) st [0..<length parts - 1])
      else st)"

text \<open>The first of the patterns that matches, as the inner loop with its \<open>break\<close> finds it.\<close>
fun first_match :: "regex list \<Rightarrow> string \<Rightarrow> rmatch_obj option" where
  "first_match [] s = None"
| "first_match (r # rs) s =
     (case re_match True r s of Some m \<Rightarrow> Some m | None \<Rightarrow> first_match rs s)"

text \<open>The body of the loop over the phrases (the verb-phrase pass).\<close>
definition verb_phrase :: "dg_state \<Rightarrow> string \<Rightarrow> dg_state" where
  "verb_phrase st phrase =
     (case first_match verb_patterns phrase of
        Some m \<Rightarrow> connect (clean_entity (grp m 1)) (clean_entity (grp m 2)) st
      | None \<Rightarrow> st)"

definition phrases_of :: "string \<Rightarrow> string list" where
  "phrases_of txt = filter (\<lambda>p. p \<noteq> []) (map strip (re_split False phrase_sep_re txt))"

definition dg_init :: dg_state where
  "dg_init = \<lparr>d_nodes = [], d_edges = [], node_set = {}, edge_set = {}\<rparr>"

definition parse_diagram_state :: "string \<Rightarrow> dg_state" where
  "parse_diagram_state txt =
     foldl verb_phrase (foldl arrow_line dg_init (nonblank_lines txt)) (phrases_of txt)"

definition parse_diagram :: "string \<Rightarrow> DNode list \<times> DEdge list" where
  "parse_diagram txt = (let st = parse_diagram_state txt in (d_nodes st, d_edges st))"

section \<open>The flowchart parser: \<open>parse_flowchart\<close>\<close>

record Node =
  node_id :: string
  node_label :: string
  node_type :: string

record Edge =
  from_node :: string
  to_node :: string
  edge_label :: "string option"

text \<open>The local variables of \<open>parse_flowchart\<close>. (\<open>pending_yes_no\<close> is never read or
  written after its initialisation and is left out.)\<close>
record fc_state =
  nodes :: "Node list"
  edges :: "Edge list"
  node_map :: "string \<Rightarrow> string option"
  node_id_counter :: nat
  sequential_candidates :: "string list"
  last_decision :: "string option"
  decision_to_branches :: "string \<Rightarrow> string set option"
  last_non_decision :: "string option"
  decision_prev_map :: "string \<Rightarrow> string option"

definition fc_init :: fc_state where
  "fc_init = \<lparr>nodes = [], edges = [], node_map = Map.empty, node_id_counter = 0,
              sequential_candidates = [], last_decision = None,
              decision_to_branches = Map.empty, last_non_decision = None,
              decision_prev_map = Map.empty\<rparr>"

definition add_node :: "string \<Rightarrow> string \<Rightarrow> fc_state \<Rightarrow> string \<times> fc_state" where
  "add_node lbl ntype st =
     (case node_map st lbl of
        None \<Rightarrow>
          (let nid = ''node_'' @ str_nat (node_id_counter st)
           in (nid, st\<lparr>node_id_counter := node_id_counter st + 1,
                        nodes := nodes st @ [\<lparr>node_id = nid, node_label = lbl, node_type = ntype\<rparr>],
                        node_map := (node_map st)(lbl \<mapsto> nid)\<rparr>))
      | Some nid \<Rightarrow> (nid, st))"

definition append_edge :: "string \<Rightarrow> string \<Rightarrow> string option \<Rightarrow> fc_state \<Rightarrow> fc_state" where
  "append_edge a b l st = st\<lparr>edges := edges st @ [\<lparr>from_node = a, to_node = b, edge_label = l\<rparr>]\<rparr>"

text \<open>\<open>^if\s+(.+?)\s+then\s+(.+?)(?:\s+else\s+(.+))?$\<close>\<close>
definition if_then_re :: regex where
  "if_then_re =
     seqs [Bol, lits ''if'', Plus sp, Grp 1 (PlusLazy Dot), Plus sp, lits ''then'', Plus sp,
           Grp 2 (PlusLazy Dot),
           Opt (seqs [Plus sp, lits ''else'', Plus sp, Grp 3 (Plus Dot)]), Eol]"

text \<open>\<open>^yes\s*:\s*(.+?)(?=\s+no\s*:|$)\<close>\<close>
definition yes_re :: regex where
  "yes_re =
     seqs [Bol, lits ''yes'', Star sp, Lit CHR '':'', Star sp, Grp 1 (PlusLazy Dot),
           Look (Alt (seqs [Plus sp, lits ''no'', Star sp, Lit CHR '':'']) Eol)]"

text \<open>\<open>no\s*:\s*(.+?)$\<close>\<close>
definition no_re :: regex where
  "no_re = seqs [lits ''no'', Star sp, Lit CHR '':'', Star sp, Grp 1 (PlusLazy Dot), Eol]"

text \<open>\<open>^step\s*\d+\s*:\s*(.+)$\<close>\<close>
definition step_re :: regex where
  "step_re =
     seqs [Bol, lits ''step'', Star sp, Plus dg, Star sp, Lit CHR '':'', Star sp, Grp 1 (Plus Dot), Eol]"

text \<open>\<open>\b(start|begin|end|finish)\b\<close>\<close>
definition terminal_re :: regex where
  "terminal_re = seqs [WordB, Grp 1 (words [''start'', ''begin'', ''end'', ''finish'']), WordB]"

text \<open>\<open>\b(decision|check|validate|verify)\b\<close>\<close>
definition decision_re :: regex where
  "decision_re = seqs [WordB, Grp 1 (words [''decision'', ''check'', ''validate'', ''verify'']), WordB]"

text \<open>\<open>^(yes|no)\s*:\<close>\<close>
definition yes_no_start_re :: regex where
  "yes_no_start_re = seqs [Bol, Grp 1 (words [''yes'', ''no'']), Star sp, Lit CHR '':'']"

definition is_terminal_text :: "string \<Rightarrow> bool" where
  "is_terminal_text s = found (re_search True terminal_re s)"

definition is_decision_text :: "string \<Rightarrow> bool" where
  "is_decision_text s = (CHR ''?'' \<in> set s \<or> found (re_search True decision_re s))"

text \<open>\<open>"terminal" if is_terminal else "process"\<close>\<close>
definition branch_kind :: "string \<Rightarrow> string" where
  "branch_kind s = (if is_terminal_text s then ''terminal'' else ''process'')"

text \<open>\<open>"decision" if is_decision else ("terminal" if is_terminal else "process")\<close>\<close>
definition node_kind :: "string \<Rightarrow> string" where
  "node_kind s = (if is_decision_text s then ''decision'' else branch_kind s)"

text \<open>\<open>if label not in decision_to_branches: decision_to_branches[label] = set()\<close>\<close>
definition init_branches :: "string \<Rightarrow> fc_state \<Rightarrow> fc_state" where
  "init_branches lbl st =
     (case decision_to_branches st lbl of
        None \<Rightarrow> st\<lparr>decision_to_branches := (decision_to_branches st)(lbl \<mapsto> {})\<rparr>
      | Some b \<Rightarrow> st)"

text \<open>\<open>decision_to_branches[label].add(tag)\<close>, run only after \<open>init_branches\<close>\<close>
definition add_branch :: "string \<Rightarrow> string \<Rightarrow> fc_state \<Rightarrow> fc_state" where
  "add_branch lbl tag st =
     (case decision_to_branches st lbl of
        None \<Rightarrow> st
      | Some b \<Rightarrow> st\<lparr>decision_to_branches := (decision_to_branches st)(lbl \<mapsto> insert tag b)\<rparr>)"

text \<open>\<open>if last_non_decision: decision_prev_map[label] = last_non_decision\<close>\<close>
definition set_prev :: "string \<Rightarrow> fc_state \<Rightarrow> fc_state" where
  "set_prev lbl st =
     (case last_non_decision st of
        None \<Rightarrow> st
      | Some q \<Rightarrow> if q \<noteq> [] then st\<lparr>decision_prev_map := (decision_prev_map st)(lbl \<mapsto> q)\<rparr> else st)"

text \<open>One action of an if/then/else: its node, the labelled edge from the decision, the
  branch record.\<close>
definition action_branch :: "string \<Rightarrow> string \<Rightarrow> string \<Rightarrow> string \<Rightarrow> fc_state \<Rightarrow> fc_state" where
  "action_branch decision_label decision_id tag action st =
     (if action \<noteq> [] then
        (let (aid, st1) = add_node action (branch_kind action) st
         in add_branch decision_label tag (append_edge decision_id aid (Some tag) st1))
      else st)"

text \<open>The if/then/else handler. It occurs twice in the source, for a whole line and for a
  segment of an arrow chain; only the second (\<open>in_arrow\<close>) records the previous
  non-decision label.\<close>
definition if_then_else :: "bool \<Rightarrow> rmatch_obj \<Rightarrow> fc_state \<Rightarrow> fc_state" where
  "if_then_else in_arrow m st =
     (let condition = strip (grp m 1);
          then_action = strip (grp m 2);
          else_action = (if truthy (group m 3) then strip (grp m 3) else []);
          decision_label = (if endswith condition ''?'' then condition else condition @ ''?'');
          (decision_id, st1) = add_node decision_label ''decision'' st;
          st2 = init_branches decision_label (st1\<lparr>last_decision := Some decision_label\<rparr>);
          st3 = (if in_arrow then set_prev decision_label st2 else st2);
          st4 = action_branch decision_label decision_id ''Yes'' then_action st3
      in action_branch decision_label decision_id ''No'' else_action st4)"

text \<open>The target of a Yes/No branch. On a line of its own the edge starts at the id that
  \<open>node_map\<close> has for the last decision; in a segment of an arrow chain (\<open>in_arrow\<close>) the
  source passes the decision's label itself as the edge's origin.\<close>
definition branch_target :: "bool \<Rightarrow> string \<Rightarrow> string \<Rightarrow> fc_state \<Rightarrow> fc_state" where
  "branch_target in_arrow tag path st =
     (case last_decision st of
        None \<Rightarrow> st
      | Some decision_source \<Rightarrow>
          if decision_source \<noteq> [] \<and> path \<noteq> [] then
            (let (bid, st1) = add_node path (branch_kind path) st;
                 st2 = (if in_arrow then append_edge decision_source bid (Some tag) st1
                        else if truthy (node_map st1 decision_source)
                        then append_edge (case node_map st1 decision_source of
                                            Some d \<Rightarrow> d | None \<Rightarrow> []) bid (Some tag) st1
                        else st1)
             in add_branch decision_source tag (init_branches decision_source st2))
          else st)"

definition yes_no_branches :: "bool \<Rightarrow> rmatch_obj option \<Rightarrow> rmatch_obj option \<Rightarrow> fc_state \<Rightarrow> fc_state" where
  "yes_no_branches in_arrow yes_match no_match st =
     (let st1 = (case yes_match of
                   Some m \<Rightarrow> branch_target in_arrow ''Yes'' (strip (grp m 1)) st
                 | None \<Rightarrow> st)
      in case no_match of
           Some m \<Rightarrow> branch_target in_arrow ''No'' (strip (grp m 1)) st1
         | None \<Rightarrow> st1)"

text \<open>What both the sequential step and the regular arrow segment do after adding their
  node: remember it as the last decision or the last non-decision.\<close>
definition note_kind :: "string \<Rightarrow> fc_state \<Rightarrow> fc_state" where
  "note_kind lbl st =
     (if is_decision_text lbl
      then set_prev lbl (init_branches lbl (st\<lparr>last_decision := Some lbl\<rparr>))
      else st\<lparr>last_non_decision := Some lbl\<rparr>)"

definition sequential_step :: "string \<Rightarrow> fc_state \<Rightarrow> fc_state" where
  "sequential_step line st =
     (let lbl = (case re_match True step_re line of Some m \<Rightarrow> strip (grp m 1) | None \<Rightarrow> line);
          (nid, st1) = add_node lbl (node_kind lbl) st;
          st2 = note_kind lbl st1
      in st2\<lparr>sequential_candidates := sequential_candidates st2 @ [lbl]\<rparr>)"

text \<open>A regular segment \<open>part\<close> at index \<open>i\<close> of an arrow chain: its node, then the edge to
  the next segment, whose node is added with type \<open>process\<close> if it does not exist yet.\<close>
definition regular_part :: "string list \<Rightarrow> nat \<Rightarrow> string \<Rightarrow> fc_state \<Rightarrow> fc_state" where
  "regular_part arrow_parts i part st =
     (let (nid, st1) = add_node part (node_kind part) st;
          st2 = note_kind part st1
      in if i + 1 < length arrow_parts then
           (let next_part = strip (arrow_parts ! (i + 1))
            in if found (re_match True yes_no_start_re next_part) then st2
               else (let (next_id, st3) = add_node next_part ''process'' st2
                     in append_edge nid next_id None st3))
         else st2)"

text \<open>The body of the loop over the segments of an arrow chain.\<close>
definition arrow_part :: "string list \<Rightarrow> fc_state \<Rightarrow> nat \<Rightarrow> fc_state" where
  "arrow_part arrow_parts st i =
     (let part = strip (arrow_parts ! i)
      in if part = [] then st
         else case re_match True if_then_re part of
                Some m \<Rightarrow> if_then_else True m st
              | None \<Rightarrow>
                  (let yes_match = re_search True yes_re part;
                       no_match = re_search True no_re part
                   in if found yes_match \<or> found no_match
                      then yes_no_branches True yes_match no_match st
                      else regular_part arrow_parts i part st))"

text \<open>The body of the loop over the lines.\<close>
definition process_line :: "fc_state \<Rightarrow> string \<Rightarrow> fc_state" where
  "process_line st line =
     (let arrow_parts = re_split False arrow_re line;
          has_arrow = (1 < length arrow_parts);
          has_branch = found (re_search True yes_no_re line)
      in case re_match True if_then_re line of
           Some m \<Rightarrow> if_then_else False m st
         | None \<Rightarrow>
             if has_branch \<and> \<not> has_arrow
             then yes_no_branches False (re_search True yes_re line) (re_search True no_re line) st
             else if \<not> has_arrow \<and> \<not> has_branch then sequential_step line st
             else foldl (arrow_part arrow_parts) st [0..<length arrow_parts])"

definition has_edge :: "string \<Rightarrow> string \<Rightarrow> Edge list \<Rightarrow> bool" where
  "has_edge a b es = list_ex (\<lambda>e. from_node e = a \<and> to_node e = b) es"

text \<open>\<open>next((i for i, label in enumerate(xs) if label == x), -1)\<close>, with \<open>None\<close> for -1\<close>
fun index_of :: "'a \<Rightarrow> 'a list \<Rightarrow> nat option" where
  "index_of x [] = None"
| "index_of x (y # ys) = (if y = x then Some 0 else map_option Suc (index_of x ys))"

text \<open>The body of the connection-repair loop over the decision nodes.\<close>
definition repair_decision :: "fc_state \<Rightarrow> Node \<Rightarrow> fc_state" where
  "repair_decision st decision =
     (let decision_id = node_id decision;
          decision_edges =
            filter (\<lambda>e. from_node e = decision_id \<and>
                         (edge_label e = Some ''Yes'' \<or> edge_label e = Some ''No'')) (edges st)
      in if decision_edges = [] then st
         else case (find (\<lambda>e. edge_label e = Some ''Yes'') decision_edges,
                    find (\<lambda>e. edge_label e = Some ''No'') decision_edges) of
                (Some yes_edge, Some no_edge) \<Rightarrow>
                  (let yes_to_id = to_node yes_edge;
                       no_to_id = to_node no_edge;
                       end_node = find (\<lambda>n. node_type n = ''terminal'' \<and>
                                              contains ''end'' (lower (node_label n))) (nodes st);
                       st1 = (case end_node of
                                Some en \<Rightarrow>
                                  if has_edge yes_to_id (node_id en) (edges st) then st
                                  else append_edge yes_to_id (node_id en) None st
                              | None \<Rightarrow> st)
                   in case index_of (node_label decision) (sequential_candidates st1) of
                        Some decision_index \<Rightarrow>
                          if decision_index + 1 < length (sequential_candidates st1) then
                            (let next_step = sequential_candidates st1 ! (decision_index + 1)
                             in case node_map st1 next_step of
                                  Some next_id \<Rightarrow>
                                    if has_edge no_to_id next_id (edges st1) then st1
                                    else append_edge no_to_id next_id None st1
                                | None \<Rightarrow> st1)
                          else st1
                      | None \<Rightarrow> st1)
              | other \<Rightarrow> st)"

text \<open>The body of the final loop over adjacent entries of \<open>sequential_candidates\<close>.\<close>
definition seq_connect :: "fc_state \<Rightarrow> nat \<Rightarrow> fc_state" where
  "seq_connect st i =
     (let from_label = sequential_candidates st ! i;
          to_label = sequential_candidates st ! (i + 1)
      in case (node_map st from_label, node_map st to_label) of
           (Some from_id, Some to_id) \<Rightarrow>
             (let from_n = find (\<lambda>n. node_label n = from_label) (nodes st)
              in if has_edge from_id to_id (edges st)
                    \<or> (case from_n of Some n \<Rightarrow> node_type n = ''decision'' | None \<Rightarrow> False)
                 then st
                 else append_edge from_id to_id None st)
         | other \<Rightarrow> st)"

definition parse_flowchart :: "string \<Rightarrow> Node list \<times> Edge list" where
  "parse_flowchart txt =
     (let st1 = foldl process_line fc_init (nonblank_lines txt);
          decision_nodes = filter (\<lambda>n. node_type n = ''decision'') (nodes st1);
          st2 = foldl repair_decision st1 decision_nodes;
          st3 = foldl seq_connect st2 [0..<length (sequential_candidates st2) - 1]
      in (nodes st3, edges st3))"

section \<open>Notions used to state the properties\<close>

text \<open>The pairs of texts that the arrow pass hands to \<open>add_node\<close> for one line, and the
  verb-phrase pass for one phrase, in the order of the loops.\<close>
definition arrow_pairs :: "string \<Rightarrow> (string \<times> string) list" where
  "arrow_pairs line =
     (if has_arrow_token line then
        (let parts = re_split False arrow_re line
         in map (\<lambda>i. (parts ! i, parts ! (i + 1))) [0..<length parts - 1])
      else [])"

definition verb_pairs :: "string \<Rightarrow> (string \<times> string) list" where
  "verb_pairs phrase =
     (case first_match verb_patterns phrase of
        Some m \<Rightarrow> [(clean_entity (grp m 1), clean_entity (grp m 2))]
      | None \<Rightarrow> [])"

definition mention_pairs :: "string \<Rightarrow> (string \<times> string) list" where
  "mention_pairs txt =
     concat (map arrow_pairs (nonblank_lines txt)) @ concat (map verb_pairs (phrases_of txt))"

text \<open>The key under which \<open>add_node\<close> files each mention: \<open>canon\<close> of the text it is
  given, which is a segment of an arrow line, or a captured span of a verb phrase after
  \<open>clean_entity\<close>.\<close>
definition mention_keys :: "string \<Rightarrow> string list" where
  "mention_keys txt = concat (map (\<lambda>(a, b). [canon a, canon b]) (mention_pairs txt))"

text \<open>The identity of an entity in the words of the specification: whitespace collapsed, a
  leading article stripped, compared without regard to case.\<close>
definition spec_identity :: "string \<Rightarrow> string" where
  "spec_identity s = lower (clean_entity s)"

definition labels_of :: "dg_state \<Rightarrow> string list" where
  "labels_of st = map d_label (d_nodes st)"

text \<open>The invariant of the loops of \<open>parse_diagram\<close>: \<open>node_set\<close> holds exactly the labels
  of the nodes, no label occurs twice, and both ends of every edge are in \<open>node_set\<close>.\<close>
definition dg_inv :: "dg_state \<Rightarrow> bool" where
  "dg_inv st = (node_set st = set (labels_of st) \<and> distinct (labels_of st)
                \<and> list_all (\<lambda>e. d_from e \<in> node_set st \<and> d_to e \<in> node_set st) (d_edges st))"

text \<open>The key that \<open>add_node\<close> adds for a text, if any.\<close>
definition key_set :: "string \<Rightarrow> string set" where
  "key_set a = (if canon a = [] then {} else {canon a})"

section \<open>Properties of the diagram parser\<close>

lemma arrow_line_pairs:
  "arrow_line st line = foldl (\<lambda>s (a, b). connect a b s) st (arrow_pairs line)"
  by (simp add: arrow_line_def arrow_pairs_def Let_def foldl_map)

lemma verb_phrase_pairs:
  "verb_phrase st phrase = foldl (\<lambda>s (a, b). connect a b s) st (verb_pairs phrase)"
  by (simp add: verb_phrase_def verb_pairs_def split: option.split)

lemma foldl_pairs_concat:
  "foldl (\<lambda>s x. foldl f s (g x)) st xs = foldl f st (concat (map g xs))"
  by (induction xs arbitrary: st) simp_all

lemma parse_diagram_state_pairs:
  "parse_diagram_state txt = foldl (\<lambda>s (a, b). connect a b s) dg_init (mention_pairs txt)"
proof -
  have a: "foldl arrow_line st ls = foldl (\<lambda>s (a, b). connect a b s) st (concat (map arrow_pairs ls))" for st ls
    using foldl_pairs_concat [of "\<lambda>s (a, b). connect a b s" arrow_pairs st ls]
    by (simp add: arrow_line_pairs [abs_def])
  have v: "foldl verb_phrase st ps = foldl (\<lambda>s (a, b). connect a b s) st (concat (map verb_pairs ps))" for st ps
    using foldl_pairs_concat [of "\<lambda>s (a, b). connect a b s" verb_pairs st ps]
    by (simp add: verb_phrase_pairs [abs_def])
  show ?thesis
    by (simp add: parse_diagram_state_def mention_pairs_def a v)
qed

lemma d_add_node_inv:
  assumes "dg_inv st" and "d_add_node a st = (r, st')"
  shows "dg_inv st'" and "set (labels_of st') = set (labels_of st) \<union> key_set a"
    and "r = (if canon a = [] then None else Some (canon a))"
  using assms
  by (auto simp: d_add_node_def dg_inv_def labels_of_def key_set_def Let_def list_all_iff
           split: if_splits)

lemma d_add_edge_inv:
  assumes "dg_inv st" and "f \<in> node_set st" and "t \<in> node_set st"
  shows "dg_inv (d_add_edge f t st)" and "labels_of (d_add_edge f t st) = labels_of st"
  using assms
  by (auto simp: d_add_edge_def dg_inv_def labels_of_def Let_def list_all_iff)

lemma connect_inv:
  assumes "dg_inv st"
  shows "dg_inv (connect a b st)"
    and "set (labels_of (connect a b st)) = set (labels_of st) \<union> key_set a \<union> key_set b"
proof -
  obtain r1 st1 where s1: "d_add_node a st = (r1, st1)" by (cases "d_add_node a st")
  obtain r2 st2 where s2: "d_add_node b st1 = (r2, st2)" by (cases "d_add_node b st1")
  note i1 = d_add_node_inv [OF assms s1]
  note i2 = d_add_node_inv [OF i1(1) s2]
  have ns2: "node_set st2 = set (labels_of st2)" using i2(1) by (simp add: dg_inv_def)
  have l2: "set (labels_of st2) = set (labels_of st) \<union> key_set a \<union> key_set b"
    using i1(2) i2(2) by simp
  show "dg_inv (connect a b st)"
  proof (cases "truthy r1 \<and> truthy r2")
    case True
    then have ka: "canon a \<noteq> []" "r1 = Some (canon a)" and kb: "canon b \<noteq> []" "r2 = Some (canon b)"
      using i1(3) i2(3) by (auto simp: truthy_def split: if_splits)
    have "canon a \<in> node_set st2" "canon b \<in> node_set st2"
      using ka kb ns2 l2 by (auto simp: key_set_def)
    then show ?thesis
      using d_add_edge_inv(1) [OF i2(1)] True ka kb by (simp add: connect_def s1 s2)
  next
    case False
    then show ?thesis using i2(1) by (auto simp: connect_def s1 s2)
  qed
  show "set (labels_of (connect a b st)) = set (labels_of st) \<union> key_set a \<union> key_set b"
  proof (cases "truthy r1 \<and> truthy r2")
    case True
    then have ka: "canon a \<noteq> []" "r1 = Some (canon a)" and kb: "canon b \<noteq> []" "r2 = Some (canon b)"
      using i1(3) i2(3) by (auto simp: truthy_def split: if_splits)
    have "canon a \<in> node_set st2" "canon b \<in> node_set st2"
      using ka kb ns2 l2 by (auto simp: key_set_def)
    then show ?thesis
      using d_add_edge_inv(2) [OF i2(1)] True ka kb l2 by (simp add: connect_def s1 s2)
  next
    case False
    then show ?thesis using l2 by (auto simp: connect_def s1 s2)
  qed
qed

lemma connect_fold_inv:
  assumes "dg_inv st"
  shows "dg_inv (foldl (\<lambda>s (a, b). connect a b s) st ps)
       \<and> set (labels_of (foldl (\<lambda>s (a, b). connect a b s) st ps))
           = set (labels_of st) \<union> (\<Union>(a, b) \<in> set ps. key_set a \<union> key_set b)"
  using assms
proof (induction ps arbitrary: st)
  case Nil
  then show ?case by simp
next
  case (Cons p ps)
  obtain a b where p: "p = (a, b)" by (cases p)
  from connect_inv [OF Cons.prems, of a b] Cons.IH [of "connect a b st"]
  show ?case by (auto simp: p)
qed

lemma dg_init_inv: "dg_inv dg_init"
  by (simp add: dg_inv_def dg_init_def labels_of_def)

lemma mention_keys_set:
  "set (mention_keys txt) = (\<Union>(a, b) \<in> set (mention_pairs txt). {canon a, canon b})"
  by (auto simp: mention_keys_def)

lemma key_set_pairs:
  "(\<Union>(a, b) \<in> P. key_set a \<union> key_set b) = {k \<in> (\<Union>(a, b) \<in> P. {canon a, canon b}). k \<noteq> []}"
  by (fastforce simp: key_set_def split: if_splits)

lemma parse_diagram_state_inv: "dg_inv (parse_diagram_state txt)"
  using connect_fold_inv [OF dg_init_inv, of "mention_pairs txt"]
  by (simp add: parse_diagram_state_pairs)

lemma parse_diagram_state_labels:
  "set (labels_of (parse_diagram_state txt)) = {k \<in> set (mention_keys txt). k \<noteq> []}"
proof -
  have "set (labels_of dg_init) = {}" by (simp add: dg_init_def labels_of_def)
  then show ?thesis
    using connect_fold_inv [OF dg_init_inv, of "mention_pairs txt"]
    by (simp add: parse_diagram_state_pairs mention_keys_set key_set_pairs)
qed

lemma distinct_filter_one:
  "distinct xs \<Longrightarrow> x \<in> set xs \<Longrightarrow> length (filter (\<lambda>y. y = x) xs) = 1"
  by (induction xs) (auto simp: filter_empty_conv)

text \<open>
  Claim C10. Every edge that \<open>parse_diagram\<close> returns is endpoint-closed: its \<open>from\<close>
  field and its \<open>to\<close> field are each the label of a node of the returned node list.
\<close>
theorem parse_diagram_edges_closed:
  "\<forall>e \<in> set (snd (parse_diagram txt)).
     d_from e \<in> set (map d_label (fst (parse_diagram txt))) \<and>
     d_to e \<in> set (map d_label (fst (parse_diagram txt)))"
  using parse_diagram_state_inv [of "txt"]
  by (auto simp: parse_diagram_def dg_inv_def labels_of_def list_all_iff Let_def)

text \<open>An arrow line and a verb phrase: two edges, and all three of their endpoints are
  labels of returned nodes.\<close>
theorem parse_diagram_edges_closed_witness:
  "snd (parse_diagram (''A -> B'' @ [CHR 0x0A] @ ''B connects to the C'')) =
      [\<lparr>d_from = ''A'', d_to = ''B''\<rparr>, \<lparr>d_from = ''B'', d_to = ''C''\<rparr>]
   \<and> {''A'', ''B'', ''C''}
       \<subseteq> set (map d_label (fst (parse_diagram (''A -> B'' @ [CHR 0x0A] @ ''B connects to the C''))))"
proof -
  have e: "snd (parse_diagram (''A -> B'' @ [CHR 0x0A] @ ''B connects to the C'')) =
      [\<lparr>d_from = ''A'', d_to = ''B''\<rparr>, \<lparr>d_from = ''B'', d_to = ''C''\<rparr>]"
    by code_simp
  show ?thesis
    using parse_diagram_edges_closed [of "''A -> B'' @ [CHR 0x0A] @ ''B connects to the C''"] e
    by simp
qed

text \<open>
  Claim C3, as the code has it. Node identity in \<open>parse_diagram\<close> is the key of a
  mention compared as a string, case included: the key of a segment of an arrow line is
  its text with whitespace collapsed, the key of a captured span of a verb phrase is its
  text with whitespace collapsed and a leading article stripped. For every non-empty key
  the returned node list holds exactly one node with that label, so two mentions with
  the same key share one node, whichever pass they come from.
\<close>
theorem parse_diagram_one_node_per_key:
  "k \<in> set (mention_keys txt) \<Longrightarrow> k \<noteq> [] \<Longrightarrow>
    length (filter (\<lambda>n. d_label n = k) (fst (parse_diagram txt))) = 1"
proof -
  assume k: "k \<in> set (mention_keys txt)" "k \<noteq> []"
  let ?ns = "d_nodes (parse_diagram_state txt)"
  have d: "distinct (map d_label ?ns)"
    using parse_diagram_state_inv [of "txt"] by (simp add: dg_inv_def labels_of_def)
  have m: "k \<in> set (map d_label ?ns)"
    using parse_diagram_state_labels [of "txt"] k by (simp add: labels_of_def)
  have "length (filter (\<lambda>l. l = k) (map d_label ?ns)) = 1"
    using d m by (rule distinct_filter_one)
  then show ?thesis
    by (simp add: parse_diagram_def Let_def filter_map comp_def)
qed

text \<open>The key \<open>API\<close> is mentioned by the arrow line and, behind an article, by the verb
  phrase; one node carries it.\<close>
theorem parse_diagram_one_node_per_key_witness:
  "mention_keys (''The  Client -> API'' @ [CHR 0x0A] @ ''the API queries a Client'')
     = [''The Client'', ''API'', ''API'', ''Client'']
   \<and> ''API'' \<noteq> []
   \<and> length (filter (\<lambda>n. d_label n = ''API'')
         (fst (parse_diagram (''The  Client -> API'' @ [CHR 0x0A] @ ''the API queries a Client'')))) = 1"
proof -
  have m: "mention_keys (''The  Client -> API'' @ [CHR 0x0A] @ ''the API queries a Client'')
             = [''The Client'', ''API'', ''API'', ''Client'']"
    by code_simp
  show ?thesis
    using parse_diagram_one_node_per_key
            [of "''API''" "''The  Client -> API'' @ [CHR 0x0A] @ ''the API queries a Client''"] m
    by simp
qed

text \<open>
  Claim C3 as the specification words it fails twice. The mentions \<open>A\<close> and \<open>a\<close> are
  the same entity without regard to case, and get two nodes. The mention \<open>the Server\<close>
  occurs letter for letter in an arrow line and in a verb phrase, and gets the node
  \<open>the Server\<close> from the first and the node \<open>Server\<close> from the second.
\<close>
theorem parse_diagram_identity_counterexample:
  "spec_identity ''A'' = spec_identity ''a''
   \<and> map d_label (fst (parse_diagram (''A -> B'' @ [CHR 0x0A] @ ''a -> B''))) = [''A'', ''B'', ''a'']
   \<and> length (filter (\<lambda>n. spec_identity (d_label n) = spec_identity ''A'')
                (fst (parse_diagram (''A -> B'' @ [CHR 0x0A] @ ''a -> B'')))) = 2
   \<and> map d_label (fst (parse_diagram
         (''the Server -> DB'' @ [CHR 0x0A] @ ''Client connects to the Server'')))
       = [''the Server'', ''DB'', ''Client'', ''Server'']
   \<and> length (filter (\<lambda>n. spec_identity (d_label n) = spec_identity ''the Server'')
                (fst (parse_diagram
                   (''the Server -> DB'' @ [CHR 0x0A] @ ''Client connects to the Server'')))) = 2"
  by code_simp

section \<open>Properties of the classifier\<close>

text \<open>
  Claim C6. A text with the chart signal (a key-number pattern together with a quarter or
  month token, or at least three key-number occurrences) is classified as a chart under
  the hint \<open>auto\<close>, whatever flowchart signals it also carries: the chart rule is tested
  first.
\<close>
theorem detect_visual_type_chart_first:
  "(has_key_value txt \<and> has_quarter_or_month txt) \<or> 3 \<le> length (re_findall False key_value_re txt)
   \<Longrightarrow> detect_visual_type txt ''auto'' = Inr CHART"
  by (simp add: detect_visual_type_def)

text \<open>A text with the chart signal, a flow keyword and a question mark.\<close>
theorem detect_visual_type_chart_first_witness:
  "has_key_value ''Start: 1 Q1?'' \<and> has_quarter_or_month ''Start: 1 Q1?''
   \<and> has_flow_keywords ''Start: 1 Q1?'' \<and> has_decision ''Start: 1 Q1?''
   \<and> detect_visual_type ''Start: 1 Q1?'' ''auto'' = Inr CHART"
proof -
  have h: "has_key_value ''Start: 1 Q1?''" "has_quarter_or_month ''Start: 1 Q1?''"
          "has_flow_keywords ''Start: 1 Q1?''" "has_decision ''Start: 1 Q1?''"
    by code_simp+
  show ?thesis
    using detect_visual_type_chart_first [of "''Start: 1 Q1?''"] h by simp
qed

text \<open>
  Claim C8. A hint other than \<open>auto\<close>, \<open>flowchart\<close>, \<open>diagram\<close> and \<open>chart\<close> makes
  \<open>detect_visual_type\<close> raise \<open>ValueError\<close>, for every text.
\<close>
theorem detect_visual_type_invalid_hint:
  "hint \<notin> {''auto'', ''flowchart'', ''diagram'', ''chart''}
   \<Longrightarrow> detect_visual_type txt hint = Inl ValueError"
  by (simp add: detect_visual_type_def VisualType_of_def)

theorem detect_visual_type_invalid_hint_witness:
  "''pie'' \<notin> {''auto'', ''flowchart'', ''diagram'', ''chart''}
   \<and> detect_visual_type ''Start'' ''pie'' = Inl ValueError"
  using detect_visual_type_invalid_hint [of "''pie''" "''Start''"] by simp

text \<open>
  Claim C9. Under the hint \<open>auto\<close>, \<open>detect_visual_type\<close> raises nothing and returns one
  of the three kinds, for every text.
\<close>
theorem detect_visual_type_auto_total:
  "\<exists>k. detect_visual_type txt ''auto'' = Inr k \<and> k \<in> {FLOWCHART, DIAGRAM, CHART}"
  by (simp add: detect_visual_type_def)

text \<open>Each of the three kinds is returned for some text.\<close>
theorem detect_visual_type_auto_total_witness:
  "detect_visual_type ''Q1: 10'' ''auto'' = Inr CHART
   \<and> detect_visual_type ''Start'' ''auto'' = Inr FLOWCHART
   \<and> detect_visual_type ''A connects to B'' ''auto'' = Inr DIAGRAM
   \<and> (\<exists>k. detect_visual_type [] ''auto'' = Inr k \<and> k \<in> {FLOWCHART, DIAGRAM, CHART})"
proof -
  have e: "detect_visual_type ''Q1: 10'' ''auto'' = Inr CHART"
          "detect_visual_type ''Start'' ''auto'' = Inr FLOWCHART"
          "detect_visual_type ''A connects to B'' ''auto'' = Inr DIAGRAM"
    by code_simp+
  show ?thesis
    using detect_visual_type_auto_total [of "[]"] e by simp
qed

section \<open>Properties of the chart renderer\<close>

lemma foldl_max_zero:
  "list_all (\<lambda>i. c_value i = 0) d \<Longrightarrow> foldl max 0 (map c_value d) = 0"
  by (induction d) auto

text \<open>
  Claim C1. The claim is that the renderer guards the division by the largest value when
  every value is 0. The code has no such guard: for every non-empty chart data list in
  which every value is 0, \<open>generate_chart_svg\<close> raises \<open>ZeroDivisionError\<close> at the first
  bar.
\<close>
theorem generate_chart_svg_all_zero_faults:
  "d \<noteq> [] \<Longrightarrow> list_all (\<lambda>i. c_value i = 0) d
   \<Longrightarrow> generate_chart_svg d = Inl ZeroDivisionError"
  by (cases d)
     (auto simp: generate_chart_svg_def max_value_of_def py_div_def foldl_max_zero Let_def
                 draw_bar_def upt_rec)

text \<open>The text \<open>Q1: 0\<close>, \<open>Q2: 0\<close> is classified as a chart, parses to two zero entries, and
  its rendering faults.\<close>
theorem generate_chart_svg_all_zero_faults_witness:
  "detect_visual_type (''Q1: 0'' @ [CHR 0x0A] @ ''Q2: 0'') ''auto'' = Inr CHART
   \<and> parse_chart (''Q1: 0'' @ [CHR 0x0A] @ ''Q2: 0'')
       = [\<lparr>c_label = ''Q1'', c_value = 0\<rparr>, \<lparr>c_label = ''Q2'', c_value = 0\<rparr>]
   \<and> generate_chart_svg (parse_chart (''Q1: 0'' @ [CHR 0x0A] @ ''Q2: 0'')) = Inl ZeroDivisionError"
proof -
  have k: "detect_visual_type (''Q1: 0'' @ [CHR 0x0A] @ ''Q2: 0'') ''auto'' = Inr CHART"
    by code_simp
  have p: "parse_chart (''Q1: 0'' @ [CHR 0x0A] @ ''Q2: 0'')
             = [\<lparr>c_label = ''Q1'', c_value = 0\<rparr>, \<lparr>c_label = ''Q2'', c_value = 0\<rparr>]"
    by code_simp
  show ?thesis
    using generate_chart_svg_all_zero_faults
            [of "[\<lparr>c_label = ''Q1'', c_value = 0\<rparr>, \<lparr>c_label = ''Q2'', c_value = 0\<rparr>]"] k p
    by simp
qed

section \<open>Properties of the flowchart parser\<close>

text \<open>
  Claim C2. The claim is that a plain segment of an arrow chain with a \<open>?\<close> or a
  check/validate/verify keyword yields a node of type \<open>decision\<close> at any position. In the
  code the segment before it has already added that node with type \<open>process\<close> when it
  connected itself to its successor, and \<open>add_node\<close> keeps the type of a label it knows:
  \<open>Valid?\<close> is a decision text and a plain segment, and the chain \<open>Start -> Valid?\<close>
  returns it as a \<open>process\<close> node.
\<close>
theorem parse_flowchart_chain_decision_typed_process:
  "is_decision_text ''Valid?''
   \<and> re_match True if_then_re ''Valid?'' = None
   \<and> re_search True yes_re ''Valid?'' = None
   \<and> re_search True no_re ''Valid?'' = None
   \<and> parse_flowchart ''Start -> Valid?'' =
       ([\<lparr>node_id = ''node_0'', node_label = ''Start'', node_type = ''terminal''\<rparr>,
         \<lparr>node_id = ''node_1'', node_label = ''Valid?'', node_type = ''process''\<rparr>],
        [\<lparr>from_node = ''node_0'', to_node = ''node_1'', edge_label = None\<rparr>])"
  by code_simp

text \<open>
  Claim C4. For the three lines \<open>Check valid?\<close>, \<open>Yes: Show dashboard\<close>, \<open>No: Show error\<close>
  the parser returns one decision node and two process nodes, and a Yes edge and a No
  edge that both start at the decision node.
\<close>
theorem parse_flowchart_decision_branching:
  "parse_flowchart (''Check valid?'' @ [CHR 0x0A] @ ''Yes: Show dashboard'' @ [CHR 0x0A]
                    @ ''No: Show error'') =
     ([\<lparr>node_id = ''node_0'', node_label = ''Check valid?'', node_type = ''decision''\<rparr>,
       \<lparr>node_id = ''node_1'', node_label = ''Show dashboard'', node_type = ''process''\<rparr>,
       \<lparr>node_id = ''node_2'', node_label = ''Show error'', node_type = ''process''\<rparr>],
      [\<lparr>from_node = ''node_0'', to_node = ''node_1'', edge_label = Some ''Yes''\<rparr>,
       \<lparr>from_node = ''node_0'', to_node = ''node_2'', edge_label = Some ''No''\<rparr>])"
  by code_simp

text \<open>
  Claim C5. For the three lines \<open>Start\<close>, \<open>Process\<close>, \<open>End\<close> the parser returns three
  nodes of types terminal, process, terminal and two unlabelled edges, from the first to
  the second and from the second to the third.
\<close>
theorem parse_flowchart_sequencing:
  "parse_flowchart (''Start'' @ [CHR 0x0A] @ ''Process'' @ [CHR 0x0A] @ ''End'') =
     ([\<lparr>node_id = ''node_0'', node_label = ''Start'', node_type = ''terminal''\<rparr>,
       \<lparr>node_id = ''node_1'', node_label = ''Process'', node_type = ''process''\<rparr>,
       \<lparr>node_id = ''node_2'', node_label = ''End'', node_type = ''terminal''\<rparr>],
      [\<lparr>from_node = ''node_0'', to_node = ''node_1'', edge_label = None\<rparr>,
       \<lparr>from_node = ''node_1'', to_node = ''node_2'', edge_label = None\<rparr>])"
  by code_simp

end
